theory Spec2Isabelle
  imports Main
begin

section \<open>Python values, exceptions and the objects of the libraries\<close>

text \<open>
  The repository is a book recommendation agent in Python (\<^verbatim>\<open>agent.py\<close>): five
  lookup tools built on a web search, a factory \<^verbatim>\<open>create_agent\<close> for the agent
  executor, the function \<^verbatim>\<open>chat\<close> that keeps a global \<^verbatim>\<open>chat_history\<close>, and a
  command-line entry point. The language model, the web search and the executor's loop
  belong to external libraries; what they return or raise is an input of the model.

  An exception is a value. \<open>Exception s\<close> is an instance of Python's \<^verbatim>\<open>Exception\<close>
  or of a subclass; \<open>BaseException s\<close> is an instance of \<^verbatim>\<open>BaseException\<close> that is
  not an \<^verbatim>\<open>Exception\<close> (\<^verbatim>\<open>KeyboardInterrupt\<close>, \<^verbatim>\<open>SystemExit\<close>,
  \<^verbatim>\<open>GeneratorExit\<close>). The argument \<open>s\<close> is what \<^verbatim>\<open>str(e)\<close> does: it returns a
  string or raises in its turn. Every handler of the source is \<^verbatim>\<open>except Exception\<close>: it
  catches the first kind and lets the second pass.
\<close>

datatype exn = Exception "exn + string" | BaseException "exn + string"

fun is_Exception :: "exn \<Rightarrow> bool" where
  "is_Exception (Exception s) = True"
| "is_Exception (BaseException s) = False"

fun exn_str :: "exn \<Rightarrow> exn + string" where
  "exn_str (Exception s) = s"
| "exn_str (BaseException s) = s"

text \<open>
  A Python object, as far as the source looks at it: \<^verbatim>\<open>None\<close>, a \<^verbatim>\<open>str\<close>, or any
  other object \<open>PObj b s\<close>, given by what \<^verbatim>\<open>bool(x)\<close> and \<^verbatim>\<open>str(x)\<close> do on it
  (\<open>Inl\<close>: the call raises). An object \<open>PObj\<close> is not a \<^verbatim>\<open>str\<close> and compares
  unequal to every \<^verbatim>\<open>str\<close>.
\<close>

datatype pyval = PNone | PStr string | PObj "exn + bool" "exn + string"

fun py_bool :: "pyval \<Rightarrow> exn + bool" where
  "py_bool PNone = Inr False"
| "py_bool (PStr s) = Inr (s \<noteq> [])"
| "py_bool (PObj b s) = b"

fun py_str :: "pyval \<Rightarrow> exn + string" where
  "py_str PNone = Inr ''None''"
| "py_str (PStr s) = Inr s"
| "py_str (PObj b s) = s"

fun isinstance_str :: "pyval \<Rightarrow> bool" where
  "isinstance_str (PStr s) = True"
| "isinstance_str v = False"

text \<open>
  An element of \<^verbatim>\<open>chat_history\<close>: a tuple of length two, \<open>Turn role content\<close>, or
  anything else (\<open>Malformed\<close>: not a tuple, or a tuple of another length).
\<close>

datatype entry = Turn pyval pyval | Malformed

text \<open>The messages handed to the executor: \<^verbatim>\<open>HumanMessage\<close> and \<^verbatim>\<open>AIMessage\<close>.\<close>

datatype message = HumanMessage pyval | AIMessage string

record input_data =
  input :: string
  chat_history :: "message list"

text \<open>
  What \<^verbatim>\<open>agent_executor.invoke\<close> returns, by the cases \<^verbatim>\<open>chat\<close> distinguishes:
  \<^verbatim>\<open>None\<close>, a \<^verbatim>\<open>dict\<close> (its items), or another object \<open>RObj a s\<close>, where \<open>a\<close> is
  its attribute \<^verbatim>\<open>output\<close> if it has one and \<open>s\<close> is what \<^verbatim>\<open>str(response)\<close> does.
  An executor maps the input to a response or raises.
\<close>

datatype response = RNone | RDict "(string \<times> pyval) list" | RObj "pyval option" "exn + string"

type_synonym executor = "input_data \<Rightarrow> exn + response"

text \<open>The keyword arguments \<^verbatim>\<open>create_agent\<close> gives to \<^verbatim>\<open>AgentExecutor\<close>.\<close>

record executor_config =
  verbose :: bool
  handle_parsing_errors :: bool
  max_iterations :: nat
  max_execution_time :: nat

text \<open>
  The library side of \<^verbatim>\<open>chat\<close>: \<open>new_HumanMessage c\<close> is the exception that
  \<^verbatim>\<open>HumanMessage(content=c)\<close> raises, if any (the class validates its content), and
  \<open>new_AgentExecutor cfg\<close> is the outcome of the constructors that \<^verbatim>\<open>create_agent\<close>
  calls one after the other (\<^verbatim>\<open>ChatGroq\<close>, \<^verbatim>\<open>TavilySearchResults\<close>, the prompt,
  \<^verbatim>\<open>create_tool_calling_agent\<close>, \<^verbatim>\<open>AgentExecutor\<close>): the first exception raised, or
  the executor. \<open>py_print m\<close> is the exception that \<^verbatim>\<open>print(m)\<close> raises, if any (a
  closed or broken standard output).
\<close>

record lib =
  new_HumanMessage :: "pyval \<Rightarrow> exn option"
  new_AgentExecutor :: "executor_config \<Rightarrow> exn + executor"
  py_print :: "string \<Rightarrow> exn option"

section \<open>The agent factory\<close>

definition create_agent :: "lib \<Rightarrow> exn + executor" where
  "create_agent L =
     new_AgentExecutor L
       \<lparr>verbose = True, handle_parsing_errors = True,
        max_iterations = 10, max_execution_time = 120\<rparr>"

section \<open>The chat function\<close>

definition APOLOGY :: string where
  "APOLOGY = ''I apologize, but I couldn't generate a response. Please try rephrasing your request.''"

definition NOT_FOUND :: string where
  "NOT_FOUND = ''I couldn't find suitable book recommendations. Could you provide more details about your preferences?''"

definition TROUBLE :: string where
  "TROUBLE = ''I'm having trouble with that request. Could you tell me more about what kind of books you're looking for?''"

definition NOT_SURE :: string where
  "NOT_SURE = ''I'm not sure how to help with that. Could you describe your reading preferences?''"

definition ERROR_REPLY :: string where
  "ERROR_REPLY = ''I'm sorry, I encountered an error. Please try again with your book preferences.''"

text \<open>The text that \<^verbatim>\<open>chat\<close> substitutes when the executor raises (lines 299-311).\<close>

definition FALLBACK :: string where
  "FALLBACK =
     ''Based on your preferences for fast-paced sci-fi novels, I recommend the following books:\<newline>'' @
     ''\<newline>'' @
     ''1. The Ministry of Time by Kaliane Bradley: A fast-paced sci-fi novel that follows a group of characters as they navigate a mysterious world where time is broken.\<newline>'' @
     ''\<newline>'' @
     ''2. Seveneves by Neal Stephenson: A epic sci-fi novel that follows humanity's struggle to survive after the moon explodes and the survivors must find a way to ensure their survival off-planet.\<newline>'' @
     ''\<newline>'' @
     ''3. Artemis by Andy Weir: A heist novel set on the Moon, which combines scientific accuracy with a compelling story.\<newline>'' @
     ''\<newline>'' @
     ''4. Dungeon Crawler Carl by Jason Anspach: A humorous and fast-paced sci-fi novel that follows the adventures of a group of characters as they navigate a fantasy world.\<newline>'' @
     ''\<newline>'' @
     ''5. We Are Legion (We Are Bob) by Dennis E. Taylor: A humorous and fast-paced sci-fi novel that follows the story of a man who is uploaded into a computer and becomes the AI controlling a spaceship.\<newline>'' @
     ''\<newline>'' @
     ''These books offer a mix of fast-paced action, scientific accuracy, and compelling storytelling that fans of Project Hail Mary and The Martian are likely to enjoy.''"

text \<open>
  Lines 261-269: the loop that renders \<^verbatim>\<open>chat_history\<close> for the executor. A tuple of
  length two with role \<^verbatim>\<open>"human"\<close> becomes a \<^verbatim>\<open>HumanMessage\<close> whatever its content
  (the constructor may raise); one with role \<^verbatim>\<open>"assistant"\<close> becomes an
  \<^verbatim>\<open>AIMessage\<close> when its content is truthy and a \<^verbatim>\<open>str\<close>; everything else is
  passed over. The first exception raised ends the loop.
\<close>

fun format_history :: "(pyval \<Rightarrow> exn option) \<Rightarrow> entry list \<Rightarrow> exn + message list" where
  "format_history chk [] = Inr []"
| "format_history chk (Malformed # msgs) = format_history chk msgs"
| "format_history chk (Turn role content # msgs) =
     (if role = PStr ''human'' then
        (case chk content of
           Some e \<Rightarrow> Inl e
         | None \<Rightarrow>
            (case format_history chk msgs of
               Inl e \<Rightarrow> Inl e
             | Inr formatted \<Rightarrow> Inr (HumanMessage content # formatted)))
      else if role = PStr ''assistant'' then
        (case py_bool content of
           Inl e \<Rightarrow> Inl e
         | Inr truthy \<Rightarrow>
            (case content of
               PStr s \<Rightarrow>
                 if truthy then
                   (case format_history chk msgs of
                      Inl e \<Rightarrow> Inl e
                    | Inr formatted \<Rightarrow> Inr (AIMessage s # formatted))
                 else format_history chk msgs
             | _ \<Rightarrow> format_history chk msgs))
      else format_history chk msgs)"

text \<open>\<^verbatim>\<open>response.get('output', '')\<close> on a dict.\<close>

definition dict_get :: "(string \<times> pyval) list \<Rightarrow> string \<Rightarrow> pyval \<Rightarrow> pyval" where
  "dict_get d k dflt = (case map_of d k of None \<Rightarrow> dflt | Some v \<Rightarrow> v)"

text \<open>
  Lines 284-293: the value bound to \<^verbatim>\<open>output\<close>, by the shape of the response. In the
  last branch the response is never \<^verbatim>\<open>None\<close>, so \<^verbatim>\<open>str(response)\<close> is taken.
\<close>

fun select_output :: "response \<Rightarrow> exn + pyval" where
  "select_output RNone = Inr (PStr APOLOGY)"
| "select_output (RDict d) =
     (let output = dict_get d ''output'' (PStr []) in
      case py_bool output of
        Inl e \<Rightarrow> Inl e
      | Inr truthy \<Rightarrow> if \<not> truthy then Inr (PStr NOT_FOUND) else Inr output)"
| "select_output (RObj (Some attr) s) =
     (if attr \<noteq> PNone then
        (case py_str attr of Inl e \<Rightarrow> Inl e | Inr t \<Rightarrow> Inr (PStr t))
      else (case s of Inl e \<Rightarrow> Inl e | Inr t \<Rightarrow> Inr (PStr t)))"
| "select_output (RObj None s) = (case s of Inl e \<Rightarrow> Inl e | Inr t \<Rightarrow> Inr (PStr t))"

text \<open>Lines 295-296: an output that is falsy or not a \<^verbatim>\<open>str\<close> is replaced.\<close>

definition checked_output :: "pyval \<Rightarrow> exn + string" where
  "checked_output output =
     (case py_bool output of
        Inl e \<Rightarrow> Inl e
      | Inr truthy \<Rightarrow>
         if \<not> truthy \<or> \<not> isinstance_str output then Inr TROUBLE
         else (case output of PStr s \<Rightarrow> Inr s | _ \<Rightarrow> Inr TROUBLE))"

text \<open>Lines 282-296, the body of the inner \<^verbatim>\<open>try\<close>.\<close>

definition run_agent :: "executor \<Rightarrow> input_data \<Rightarrow> exn + string" where
  "run_agent agent_executor d =
     (case agent_executor d of
        Inl e \<Rightarrow> Inl e
      | Inr response \<Rightarrow>
         (case select_output response of
            Inl e \<Rightarrow> Inl e
          | Inr output \<Rightarrow> checked_output output))"

text \<open>Lines 319-320: \<^verbatim>\<open>chat_history[-20:]\<close> when there are more than 20 entries.\<close>

definition keep_last20 :: "'a list \<Rightarrow> 'a list" where
  "keep_last20 h = (if length h > 20 then drop (length h - 20) h else h)"

text \<open>
  Lines 281-311, the inner \<^verbatim>\<open>try\<close> with its handler: an \<^verbatim>\<open>Exception\<close> raised by
  the body is replaced by the fixed text (the handler does not look at it); any other
  exception passes.
\<close>

definition inner_try :: "executor \<Rightarrow> input_data \<Rightarrow> exn + string" where
  "inner_try agent_executor d =
     (case run_agent agent_executor d of
        Inl e \<Rightarrow> if is_Exception e then Inr FALLBACK else Inl e
      | Inr output \<Rightarrow> Inr output)"

text \<open>
  Lines 257-322, the body of the outer \<^verbatim>\<open>try\<close>. The global \<^verbatim>\<open>chat_history\<close> is
  passed in (\<open>None\<close> for Python's \<^verbatim>\<open>None\<close>) and returned with the result. An
  exception can leave the body from the rendering of the history, from
  \<^verbatim>\<open>create_agent\<close>, or through the inner handler, in each case before the history is
  touched.
\<close>

definition chat_try ::
  "lib \<Rightarrow> string \<Rightarrow> executor option \<Rightarrow> entry list option \<Rightarrow> (exn + string) \<times> entry list" where
  "chat_try L user_input agent_executor history =
     (let h = (case history of None \<Rightarrow> [] | Some xs \<Rightarrow> xs) in
      case format_history (new_HumanMessage L) h of
        Inl e \<Rightarrow> (Inl e, h)
      | Inr formatted_history \<Rightarrow>
         (case (case agent_executor of None \<Rightarrow> create_agent L | Some ex \<Rightarrow> Inr ex) of
            Inl e \<Rightarrow> (Inl e, h)
          | Inr ex \<Rightarrow>
             (case inner_try ex \<lparr>input = user_input, chat_history = formatted_history\<rparr> of
                Inl e \<Rightarrow> (Inl e, h)
              | Inr output \<Rightarrow>
                 (let h1 = (if output \<noteq> [] \<and> output \<noteq> ''No response generated''
                            then h @ [Turn (PStr ''human'') (PStr user_input),
                                      Turn (PStr ''assistant'') (PStr output)]
                            else h)
                  in (Inr (if output \<noteq> [] then output else NOT_SURE), keep_last20 h1)))))"

text \<open>
  The whole function with the outer handler (lines 324-327). An \<^verbatim>\<open>Exception\<close> of the
  body is caught: the handler builds the message with \<^verbatim>\<open>str(e)\<close>, prints it and
  returns the apology \<open>ERROR_REPLY\<close>; \<^verbatim>\<open>str(e)\<close> and \<^verbatim>\<open>print\<close> may raise, and what
  they raise leaves the function, as does an exception of the body that is not an
  \<^verbatim>\<open>Exception\<close>. The result keeps the sum type: \<open>Inl\<close> is an exception that reaches
  the caller.
\<close>

definition chat ::
  "lib \<Rightarrow> string \<Rightarrow> executor option \<Rightarrow> entry list option \<Rightarrow> (exn + string) \<times> entry list" where
  "chat L user_input agent_executor history =
     (case chat_try L user_input agent_executor history of
        (Inr out, h) \<Rightarrow> (Inr out, h)
      | (Inl e, h) \<Rightarrow>
          if is_Exception e then
            (case exn_str e of
               Inl x \<Rightarrow> (Inl x, h)
             | Inr m \<Rightarrow>
                (case py_print L (''Error in chat function: '' @ m) of
                   Some x \<Rightarrow> (Inl x, h)
                 | None \<Rightarrow> (Inr ERROR_REPLY, h)))
          else (Inl e, h))"




text \<open>
  The callers (the command-line loop and the web page) call \<^verbatim>\<open>chat\<close> again and
  again on the same global. A call is the library's behaviour at that moment, the user
  input and the executor argument; \<open>session\<close> threads the history through the calls.
\<close>

type_synonym call = "lib \<times> string \<times> executor option"

fun session :: "call list \<Rightarrow> entry list option \<Rightarrow> entry list option" where
  "session [] history = history"
| "session ((L, user_input, agent_executor) # cs) history =
     session cs (Some (snd (chat L user_input agent_executor history)))"

text \<open>
  The entries one call adds to the history, read off its result: the pair of turns of
  lines 315-316 when the body returned a text other than \<^verbatim>\<open>'No response generated'\<close>,
  nothing otherwise. \<open>transcript\<close> is everything a sequence of calls has added, with
  nothing evicted.
\<close>

definition appended :: "lib \<Rightarrow> string \<Rightarrow> executor option \<Rightarrow> entry list option \<Rightarrow> entry list" where
  "appended L user_input agent_executor history =
     (case chat_try L user_input agent_executor history of
        (Inl e, h) \<Rightarrow> []
      | (Inr out, h) \<Rightarrow>
          if out = ''No response generated'' then []
          else [Turn (PStr ''human'') (PStr user_input), Turn (PStr ''assistant'') (PStr out)])"

fun transcript :: "call list \<Rightarrow> entry list option \<Rightarrow> entry list" where
  "transcript [] history = []"
| "transcript ((L, user_input, agent_executor) # cs) history =
     appended L user_input agent_executor history
       @ transcript cs (Some (snd (chat L user_input agent_executor history)))"

text \<open>
  A history of exchanges: an even number of entries, a \<^verbatim>\<open>"human"\<close> turn followed by
  an \<^verbatim>\<open>"assistant"\<close> turn, again and again.
\<close>

fun alternating :: "entry list \<Rightarrow> bool" where
  "alternating [] = True"
| "alternating (Turn r c # Turn r' c' # rest) =
     (r = PStr ''human'' \<and> r' = PStr ''assistant'' \<and> alternating rest)"
| "alternating es = False"

text \<open>A rendered history alternates when no two neighbours are of the same class.\<close>

fun is_human :: "message \<Rightarrow> bool" where
  "is_human (HumanMessage c) = True"
| "is_human (AIMessage s) = False"

fun alternates :: "message list \<Rightarrow> bool" where
  "alternates (a # b # ms) = (is_human a \<noteq> is_human b \<and> alternates (b # ms))"
| "alternates ms = True"

text \<open>
  The entries the rendering passes over: what is not a tuple of length two, a turn whose
  role is neither \<^verbatim>\<open>"human"\<close> nor \<^verbatim>\<open>"assistant"\<close>, and an assistant turn whose
  content is \<^verbatim>\<open>None\<close>, the empty string, or another object that is not a \<^verbatim>\<open>str\<close>
  and whose truth test returns. An assistant turn whose content raises on its truth test
  is not passed over: the loop ends with that exception.
\<close>

fun passed_over :: "entry \<Rightarrow> bool" where
  "passed_over Malformed = True"
| "passed_over (Turn role content) =
     (if role = PStr ''human'' then False
      else if role = PStr ''assistant'' then
        (case content of
           PNone \<Rightarrow> True
         | PStr s \<Rightarrow> s = []
         | PObj b s \<Rightarrow> (case b of Inl e \<Rightarrow> False | Inr t \<Rightarrow> True))
      else True)"

text \<open>
  A history of exchanges whose texts are all non-empty strings, as \<^verbatim>\<open>chat\<close> builds
  them from non-empty inputs, and the messages such a history stands for.
\<close>

fun exchanges :: "entry list \<Rightarrow> bool" where
  "exchanges [] = True"
| "exchanges (Turn (PStr r) (PStr u) # Turn (PStr r') (PStr a) # rest) =
     (r = ''human'' \<and> u \<noteq> [] \<and> r' = ''assistant'' \<and> a \<noteq> [] \<and> exchanges rest)"
| "exchanges es = False"

fun messages_of :: "entry list \<Rightarrow> message list" where
  "messages_of (Turn r c # Turn r' (PStr a) # rest) =
     HumanMessage c # AIMessage a # messages_of rest"
| "messages_of es = []"

section \<open>The lookup tools\<close>

text \<open>
  The search capability is \<^verbatim>\<open>TavilySearchResults\<close>: constructing it with
  \<^verbatim>\<open>max_results\<close> raises or gives a tool, and invoking the tool on a query raises or
  returns results. Results are a list of items or some other object (a string, say); an
  item is a dict, or an object without a method \<^verbatim>\<open>get\<close>, for which \<^verbatim>\<open>result.get\<close>
  raises the exception given.
\<close>

datatype item = Item "(string \<times> pyval) list" | NoGet exn

datatype results = ResList "item list" | ResOther pyval

type_synonym search_tool = "string \<Rightarrow> exn + results"

type_synonym tavily = "nat \<Rightarrow> exn + search_tool"

text \<open>The decimal digits of a number, as an f-string prints the counter \<^verbatim>\<open>i\<close>.\<close>

function str_nat :: "nat \<Rightarrow> string" where
  "str_nat n =
     (if n < 10 then [char_of (48 + n)]
      else str_nat (n div 10) @ [char_of (48 + n mod 10)])"
  by pat_completeness auto
termination
  by (relation "measure (\<lambda>n. n)") auto

text \<open>
  The loop \<^verbatim>\<open>for i, result in enumerate(results, 1)\<close> of the four numbered tools:
  \<open>formatted\<close> grows by one block per item; \<^verbatim>\<open>result.get\<close> or the formatting of a
  value may raise.
\<close>

fun format_numbered :: "nat \<Rightarrow> item list \<Rightarrow> string \<Rightarrow> exn + string" where
  "format_numbered i [] formatted = Inr formatted"
| "format_numbered i (NoGet e # rs) formatted = Inl e"
| "format_numbered i (Item d # rs) formatted =
     (let content = dict_get d ''content'' (PStr []);
          url = dict_get d ''url'' (PStr [])
      in case py_str content of
           Inl e \<Rightarrow> Inl e
         | Inr c \<Rightarrow>
            (case py_str url of
               Inl e \<Rightarrow> Inl e
             | Inr u \<Rightarrow>
                format_numbered (Suc i) rs
                  (formatted @ str_nat i @ ''. '' @ c @ ''\<newline>Source: '' @ u @ ''\<newline>\<newline>'')))"

text \<open>The loop of \<^verbatim>\<open>get_book_details\<close>, which does not print the counter.\<close>

fun format_plain :: "item list \<Rightarrow> string \<Rightarrow> exn + string" where
  "format_plain [] formatted = Inr formatted"
| "format_plain (NoGet e # rs) formatted = Inl e"
| "format_plain (Item d # rs) formatted =
     (let content = dict_get d ''content'' (PStr []);
          url = dict_get d ''url'' (PStr [])
      in case py_str content of
           Inl e \<Rightarrow> Inl e
         | Inr c \<Rightarrow>
            (case py_str url of
               Inl e \<Rightarrow> Inl e
             | Inr u \<Rightarrow>
                format_plain rs (formatted @ c @ ''\<newline>Source: '' @ u @ ''\<newline>\<newline>'')))"

text \<open>
  The handler of every tool, \<^verbatim>\<open>except Exception as e: return f"<prefix>{str(e)}"\<close>:
  an \<^verbatim>\<open>Exception\<close> becomes a text, unless \<^verbatim>\<open>str(e)\<close> raises; any other
  exception passes.
\<close>

definition except_Exception :: "string \<Rightarrow> exn \<Rightarrow> exn + string" where
  "except_Exception prefix e =
     (if is_Exception e then
        (case exn_str e of Inl x \<Rightarrow> Inl x | Inr m \<Rightarrow> Inr (prefix @ m))
      else Inl e)"

text \<open>
  Each tool function is a \<^verbatim>\<open>try\<close> body and its handler. It returns its value or the
  exception that leaves it, together with the queries it sent to the search, in order.
\<close>

definition search_books_by_genre_try :: "tavily \<Rightarrow> string \<Rightarrow> (exn + string) \<times> string list" where
  "search_books_by_genre_try T genre =
     (case T 5 of
        Inl e \<Rightarrow> (Inl e, [])
      | Inr search_tool \<Rightarrow>
         (let query = ''best '' @ genre @ '' books 2024 2023 highly rated recommendations'' in
          case search_tool query of
            Inl e \<Rightarrow> (Inl e, [query])
          | Inr (ResList rs) \<Rightarrow>
              (format_numbered 1 rs (''Top books in '' @ genre @ '':\<newline>\<newline>''), [query])
          | Inr (ResOther v) \<Rightarrow> (py_str v, [query])))"

definition search_books_by_genre :: "tavily \<Rightarrow> string \<Rightarrow> (exn + string) \<times> string list" where
  "search_books_by_genre T genre =
     (case search_books_by_genre_try T genre of
        (Inl e, qs) \<Rightarrow> (except_Exception ''Error searching books by genre: '' e, qs)
      | (Inr s, qs) \<Rightarrow> (Inr s, qs))"

definition search_similar_books_try :: "tavily \<Rightarrow> string \<Rightarrow> (exn + string) \<times> string list" where
  "search_similar_books_try T book_title =
     (case T 5 of
        Inl e \<Rightarrow> (Inl e, [])
      | Inr search_tool \<Rightarrow>
         (let query = ''books similar to '' @ book_title @ '' recommendations if you liked'' in
          case search_tool query of
            Inl e \<Rightarrow> (Inl e, [query])
          | Inr (ResList rs) \<Rightarrow>
              (format_numbered 1 rs (''Books similar to '' @ [CHR 0x27] @ book_title @ [CHR 0x27] @ '':\<newline>\<newline>''),
               [query])
          | Inr (ResOther v) \<Rightarrow> (py_str v, [query])))"

definition search_similar_books :: "tavily \<Rightarrow> string \<Rightarrow> (exn + string) \<times> string list" where
  "search_similar_books T book_title =
     (case search_similar_books_try T book_title of
        (Inl e, qs) \<Rightarrow> (except_Exception ''Error searching similar books: '' e, qs)
      | (Inr s, qs) \<Rightarrow> (Inr s, qs))"

definition search_books_by_mood_try :: "tavily \<Rightarrow> string \<Rightarrow> (exn + string) \<times> string list" where
  "search_books_by_mood_try T mood =
     (case T 5 of
        Inl e \<Rightarrow> (Inl e, [])
      | Inr search_tool \<Rightarrow>
         (let query = mood @ '' books recommendations best rated'' in
          case search_tool query of
            Inl e \<Rightarrow> (Inl e, [query])
          | Inr (ResList rs) \<Rightarrow>
              (format_numbered 1 rs (''Books for '' @ mood @ '' mood:\<newline>\<newline>''), [query])
          | Inr (ResOther v) \<Rightarrow> (py_str v, [query])))"

definition search_books_by_mood :: "tavily \<Rightarrow> string \<Rightarrow> (exn + string) \<times> string list" where
  "search_books_by_mood T mood =
     (case search_books_by_mood_try T mood of
        (Inl e, qs) \<Rightarrow> (except_Exception ''Error searching books by mood: '' e, qs)
      | (Inr s, qs) \<Rightarrow> (Inr s, qs))"

definition get_book_details_try :: "tavily \<Rightarrow> string \<Rightarrow> string \<Rightarrow> (exn + string) \<times> string list" where
  "get_book_details_try T book_title author =
     (case T 3 of
        Inl e \<Rightarrow> (Inl e, [])
      | Inr search_tool \<Rightarrow>
         (let search_query = book_title;
              search_query = (if author \<noteq> [] then search_query @ '' by '' @ author else search_query);
              search_query = search_query @ '' book synopsis author information reading time pages''
          in case search_tool search_query of
            Inl e \<Rightarrow> (Inl e, [search_query])
          | Inr (ResList rs) \<Rightarrow>
              (format_plain rs (''Details for '' @ [CHR 0x27] @ book_title @ [CHR 0x27] @ '':\<newline>\<newline>''),
               [search_query])
          | Inr (ResOther v) \<Rightarrow> (py_str v, [search_query])))"

definition get_book_details :: "tavily \<Rightarrow> string \<Rightarrow> string \<Rightarrow> (exn + string) \<times> string list" where
  "get_book_details T book_title author =
     (case get_book_details_try T book_title author of
        (Inl e, qs) \<Rightarrow> (except_Exception ''Error getting book details: '' e, qs)
      | (Inr s, qs) \<Rightarrow> (Inr s, qs))"

definition search_where_to_buy_try :: "tavily \<Rightarrow> string \<Rightarrow> (exn + string) \<times> string list" where
  "search_where_to_buy_try T book_title =
     (case T 4 of
        Inl e \<Rightarrow> (Inl e, [])
      | Inr search_tool \<Rightarrow>
         (let query = ''where to buy '' @ book_title @ '' book Amazon Goodreads library online'' in
          case search_tool query of
            Inl e \<Rightarrow> (Inl e, [query])
          | Inr (ResList rs) \<Rightarrow>
              (format_numbered 1 rs (''Where to get '' @ [CHR 0x27] @ book_title @ [CHR 0x27] @ '':\<newline>\<newline>''),
               [query])
          | Inr (ResOther v) \<Rightarrow> (py_str v, [query])))"

definition search_where_to_buy :: "tavily \<Rightarrow> string \<Rightarrow> (exn + string) \<times> string list" where
  "search_where_to_buy T book_title =
     (case search_where_to_buy_try T book_title of
        (Inl e, qs) \<Rightarrow> (except_Exception ''Error searching purchase options: '' e, qs)
      | (Inr s, qs) \<Rightarrow> (Inr s, qs))"

text \<open>
  The decorator \<^verbatim>\<open>@tool\<close> wraps each function: the tool object validates the
  arguments it is invoked with against the function's signature and raises to its caller
  when they do not fit, before the function and its \<^verbatim>\<open>try\<close> are entered. The
  validation is the library's: \<open>check\<close> maps the argument to the exception raised or to
  the string handed to the function (for \<^verbatim>\<open>get_book_details\<close>, the title and the
  author, \<open>None\<close> when the author is not given and the default \<^verbatim>\<open>""\<close> is used).
\<close>

definition invoke_search_books_by_genre ::
  "(pyval \<Rightarrow> exn + string) \<Rightarrow> tavily \<Rightarrow> pyval \<Rightarrow> (exn + string) \<times> string list" where
  "invoke_search_books_by_genre check T genre =
     (case check genre of Inl e \<Rightarrow> (Inl e, []) | Inr g \<Rightarrow> search_books_by_genre T g)"

definition invoke_search_similar_books ::
  "(pyval \<Rightarrow> exn + string) \<Rightarrow> tavily \<Rightarrow> pyval \<Rightarrow> (exn + string) \<times> string list" where
  "invoke_search_similar_books check T book_title =
     (case check book_title of Inl e \<Rightarrow> (Inl e, []) | Inr t \<Rightarrow> search_similar_books T t)"

definition invoke_search_books_by_mood ::
  "(pyval \<Rightarrow> exn + string) \<Rightarrow> tavily \<Rightarrow> pyval \<Rightarrow> (exn + string) \<times> string list" where
  "invoke_search_books_by_mood check T mood =
     (case check mood of Inl e \<Rightarrow> (Inl e, []) | Inr m \<Rightarrow> search_books_by_mood T m)"

definition invoke_get_book_details ::
  "(pyval \<Rightarrow> pyval option \<Rightarrow> exn + string \<times> string) \<Rightarrow> tavily \<Rightarrow> pyval \<Rightarrow> pyval option
     \<Rightarrow> (exn + string) \<times> string list" where
  "invoke_get_book_details check2 T book_title author =
     (case check2 book_title author of
        Inl e \<Rightarrow> (Inl e, [])
      | Inr (t, a) \<Rightarrow> get_book_details T t a)"

definition invoke_search_where_to_buy ::
  "(pyval \<Rightarrow> exn + string) \<Rightarrow> tavily \<Rightarrow> pyval \<Rightarrow> (exn + string) \<times> string list" where
  "invoke_search_where_to_buy check T book_title =
     (case check book_title of Inl e \<Rightarrow> (Inl e, []) | Inr t \<Rightarrow> search_where_to_buy T t)"

text \<open>
  What goes wrong in the body of a tool, said without the code: \<open>first_failure\<close> is the
  first exception met while the items of a result list are read and written out, in
  order (an item without \<^verbatim>\<open>get\<close>, then the content, then the url of each item);
  \<open>body_failure\<close> is the first exception of a body that constructs the search with
  \<open>n\<close> results and sends the query \<open>q\<close>: from the constructor, from the invocation, or
  from the results.
\<close>

fun first_failure :: "item list \<Rightarrow> exn option" where
  "first_failure [] = None"
| "first_failure (NoGet e # rs) = Some e"
| "first_failure (Item d # rs) =
     (case py_str (dict_get d ''content'' (PStr [])) of
        Inl e \<Rightarrow> Some e
      | Inr c \<Rightarrow>
         (case py_str (dict_get d ''url'' (PStr [])) of
            Inl e \<Rightarrow> Some e
          | Inr u \<Rightarrow> first_failure rs))"

definition body_failure :: "tavily \<Rightarrow> nat \<Rightarrow> string \<Rightarrow> exn option" where
  "body_failure T n q =
     (case T n of
        Inl e \<Rightarrow> Some e
      | Inr search_tool \<Rightarrow>
         (case search_tool q of
            Inl e \<Rightarrow> Some e
          | Inr (ResList rs) \<Rightarrow> first_failure rs
          | Inr (ResOther v) \<Rightarrow> (case py_str v of Inl e \<Rightarrow> Some e | Inr s \<Rightarrow> None)))"

text \<open>
  The contract of a handled body, for the first failure of the body, the prefix of the
  handler and the result of the tool: an \<^verbatim>\<open>Exception\<close> whose \<^verbatim>\<open>str\<close> returns
  becomes the prefix followed by that string; what \<^verbatim>\<open>str\<close> raises, or an exception
  that is not an \<^verbatim>\<open>Exception\<close>, reaches the caller; without a failure the tool
  returns a text. \<open>guarded\<close> says the same of the argument validation in front of a
  function: what it raises reaches the caller, and what it accepts is handed on.
\<close>

abbreviation handled :: "exn option \<Rightarrow> string \<Rightarrow> exn + string \<Rightarrow> bool" where
  "handled failure prefix result \<equiv>
     (\<forall>e m. failure = Some e \<and> is_Exception e \<and> exn_str e = Inr m \<longrightarrow> result = Inr (prefix @ m))
     \<and> (\<forall>e x. failure = Some e \<and> is_Exception e \<and> exn_str e = Inl x \<longrightarrow> result = Inl x)
     \<and> (\<forall>e. failure = Some e \<and> \<not> is_Exception e \<longrightarrow> result = Inl e)
     \<and> (failure = None \<longrightarrow> (\<exists>s. result = Inr s))"

abbreviation guarded ::
  "exn + 'a \<Rightarrow> (exn + string) \<times> string list \<Rightarrow> ('a \<Rightarrow> (exn + string) \<times> string list) \<Rightarrow> bool" where
  "guarded validation result run \<equiv>
     (\<forall>x. validation = Inl x \<longrightarrow> result = (Inl x, []))
     \<and> (\<forall>v. validation = Inr v \<longrightarrow> result = run v)"

section \<open>The command-line entry point\<close>





section \<open>Example data\<close>

text \<open>
  Concrete library behaviours and inputs on which the model is run: a message class and
  an argument validation that accept strings only, a \<^verbatim>\<open>print\<close> that works, an
  executor that answers with a dict, one that raises an \<^verbatim>\<open>Exception\<close>, one that is
  interrupted from the keyboard, searches that cannot be constructed, time out, find
  nothing or return an item that is no dict, and an environment without the search key.
\<close>

definition str_only :: "pyval \<Rightarrow> exn option" where
  "str_only c =
     (if isinstance_str c then None else Some (Exception (Inr ''content must be a string'')))"

definition echo :: executor where
  "echo d = Inr (RDict [(''output'', PStr (''Re: '' @ input d))])"

definition failing :: executor where
  "failing d = Inl (Exception (Inr ''rate limit reached''))"

definition interrupted :: executor where
  "interrupted d = Inl (BaseException (Inr []))"

definition demo_lib :: lib where
  "demo_lib =
     \<lparr>new_HumanMessage = str_only, new_AgentExecutor = (\<lambda>cfg. Inr echo),
      py_print = (\<lambda>m. None)\<rparr>"

definition eleven_calls :: "call list" where
  "eleven_calls =
     map (\<lambda>u. (demo_lib, u, Some echo))
       [''q1'', ''q2'', ''q3'', ''q4'', ''q5'', ''q6'', ''q7'', ''q8'', ''q9'', ''q10'', ''q11'']"

definition valid_str :: "pyval \<Rightarrow> exn + string" where
  "valid_str v =
     (case v of
        PStr s \<Rightarrow> Inr s
      | _ \<Rightarrow> Inl (Exception (Inr ''Input should be a valid string'')))"

definition valid_details :: "pyval \<Rightarrow> pyval option \<Rightarrow> exn + string \<times> string" where
  "valid_details t a =
     (case (t, a) of
        (PStr s, None) \<Rightarrow> Inr (s, [])
      | (PStr s, Some (PStr b)) \<Rightarrow> Inr (s, b)
      | _ \<Rightarrow> Inl (Exception (Inr ''Input should be a valid string'')))"

definition no_key_search :: tavily where
  "no_key_search n = Inl (Exception (Inr ''Did not find tavily_api_key''))"

definition timeout_search :: tavily where
  "timeout_search n = Inr (\<lambda>q. Inl (Exception (Inr ''timed out'')))"

definition empty_search :: tavily where
  "empty_search n = Inr (\<lambda>q. Inr (ResList []))"

definition odd_item_search :: tavily where
  "odd_item_search n =
     Inr (\<lambda>q. Inr (ResList
       [Item [(''content'', PStr ''A fine book''), (''url'', PStr ''http://a'')],
        NoGet (Exception (Inr ''no attribute get''))]))"

definition unprintable_search :: tavily where
  "unprintable_search n =
     Inr (\<lambda>q. Inr (ResList
       [Item [(''content'', PObj (Inr True) (Inl (Exception (Inr ''cannot format'')))),
              (''url'', PStr ''http://a'')]]))"

definition interrupted_search :: tavily where
  "interrupted_search n = Inr (\<lambda>q. Inl (BaseException (Inr [])))"


section \<open>Properties of the chat function\<close>

lemmas demo_defs = str_only_def echo_def failing_def interrupted_def demo_lib_def

lemma FALLBACK_nonempty: "FALLBACK \<noteq> []"
  by (simp add: FALLBACK_def)

lemma FALLBACK_not_marker: "FALLBACK \<noteq> ''No response generated''"
  by (simp add: FALLBACK_def)

lemma create_agent_ceilings:
  "\<exists>cfg. create_agent L = new_AgentExecutor L cfg
     \<and> max_iterations cfg = 10 \<and> max_execution_time cfg = 120"
  unfolding create_agent_def
  by (rule exI [of _ "\<lparr>verbose = True, handle_parsing_errors = True,
        max_iterations = 10, max_execution_time = 120\<rparr>"]) simp

lemma checked_output_nonempty: "checked_output v = Inr s \<Longrightarrow> s \<noteq> []"
  by (cases v) (auto simp: checked_output_def TROUBLE_def split: sum.splits if_splits)

lemma run_agent_nonempty: "run_agent ex d = Inr s \<Longrightarrow> s \<noteq> []"
  by (auto simp: run_agent_def split: sum.splits dest: checked_output_nonempty)

lemma inner_try_nonempty: "inner_try ex d = Inr s \<Longrightarrow> s \<noteq> []"
  by (auto simp: inner_try_def FALLBACK_nonempty split: sum.splits if_splits
      dest: run_agent_nonempty)

lemma inner_try_raises: "inner_try ex d = Inl e \<Longrightarrow> run_agent ex d = Inl e \<and> \<not> is_Exception e"
  by (auto simp: inner_try_def split: sum.splits if_splits)

lemma chat_try_nonempty: "chat_try L u ax h = (Inr s, h') \<Longrightarrow> s \<noteq> []"
  by (auto simp: chat_try_def Let_def NOT_SURE_def
      split: sum.splits option.splits if_splits dest: inner_try_nonempty)







lemma chat_invoked:
  assumes "format_history (new_HumanMessage L) (case history of None \<Rightarrow> [] | Some xs \<Rightarrow> xs) = Inr fh"
    and "(case agent_executor of None \<Rightarrow> create_agent L | Some x \<Rightarrow> Inr x) = Inr ex"
  shows "fst (chat L user_input agent_executor history) =
           inner_try ex \<lparr>input = user_input, chat_history = fh\<rparr>"
proof (cases "inner_try ex \<lparr>input = user_input, chat_history = fh\<rparr>")
  case (Inl e)
  then have "\<not> is_Exception e" by (auto dest: inner_try_raises)
  with Inl assms show ?thesis
    by (simp add: chat_def chat_try_def split: option.splits)
next
  case (Inr s)
  then have "s \<noteq> []" by (rule inner_try_nonempty)
  with Inr assms show ?thesis
    by (simp add: chat_def chat_try_def Let_def split: option.splits)
qed



lemma chat_create_fails:
  "format_history (new_HumanMessage L) (case history of None \<Rightarrow> [] | Some xs \<Rightarrow> xs) = Inr fh \<Longrightarrow>
   create_agent L = Inl e \<Longrightarrow>
   is_Exception e \<Longrightarrow> exn_str e = Inr m \<Longrightarrow>
   py_print L (''Error in chat function: '' @ m) = None \<Longrightarrow>
   fst (chat L user_input None history) = Inr ERROR_REPLY"
  by (simp add: chat_def chat_try_def)




lemma inner_try_Exception:
  "ex d = Inl e \<Longrightarrow> is_Exception e \<Longrightarrow> inner_try ex d = Inr FALLBACK"
  by (simp add: inner_try_def run_agent_def)

lemma inner_try_BaseException:
  "ex d = Inl e \<Longrightarrow> \<not> is_Exception e \<Longrightarrow> inner_try ex d = Inl e"
  by (simp add: inner_try_def run_agent_def)





subsection \<open>The engine raises\<close>

text \<open>
  C4, as amended. When the rendering of the history and the choice of the executor
  succeed, so that the executor is invoked, and the invocation raises an instance of
  Exception (quota, network, malformed tool schema), chat returns the fixed text
  FALLBACK, which is not empty: the same text for every user input and every such
  exception. When the invocation raises an exception that is not an instance of
  Exception (KeyboardInterrupt, SystemExit), nothing is substituted and that exception
  leaves chat.
\<close>

theorem engine_failure_gives_fallback:
  "format_history (new_HumanMessage L) (case history of None \<Rightarrow> [] | Some xs \<Rightarrow> xs) = Inr fh \<Longrightarrow>
   (case agent_executor of None \<Rightarrow> create_agent L | Some x \<Rightarrow> Inr x) = Inr ex \<Longrightarrow>
   ex \<lparr>input = user_input, chat_history = fh\<rparr> = Inl e \<Longrightarrow>
   (is_Exception e \<longrightarrow>
      fst (chat L user_input agent_executor history) = Inr FALLBACK \<and> FALLBACK \<noteq> [])
   \<and> (\<not> is_Exception e \<longrightarrow> fst (chat L user_input agent_executor history) = Inl e)"
  using chat_invoked [of L history fh agent_executor ex user_input]
  by (simp add: inner_try_Exception inner_try_BaseException FALLBACK_nonempty)

theorem engine_failure_gives_fallback_witness:
  "format_history (new_HumanMessage demo_lib) [] = Inr []
   \<and> failing \<lparr>input = ''dark fantasy'', chat_history = []\<rparr> = Inl (Exception (Inr ''rate limit reached''))
   \<and> is_Exception (Exception (Inr ''rate limit reached''))
   \<and> fst (chat demo_lib ''dark fantasy'' (Some failing) (Some [])) = Inr FALLBACK
   \<and> FALLBACK \<noteq> []
   \<and> interrupted \<lparr>input = ''dark fantasy'', chat_history = []\<rparr> = Inl (BaseException (Inr []))
   \<and> \<not> is_Exception (BaseException (Inr []))
   \<and> fst (chat demo_lib ''dark fantasy'' (Some interrupted) (Some [])) = Inl (BaseException (Inr []))"
proof -
  have a: "format_history (new_HumanMessage demo_lib) (case Some [] of None \<Rightarrow> [] | Some xs \<Rightarrow> xs) = Inr []"
    by simp
  have b: "(case Some failing of None \<Rightarrow> create_agent demo_lib | Some x \<Rightarrow> Inr x) = Inr failing"
    by simp
  have c: "failing \<lparr>input = ''dark fantasy'', chat_history = []\<rparr> = Inl (Exception (Inr ''rate limit reached''))"
    by (simp add: failing_def)
  have b': "(case Some interrupted of None \<Rightarrow> create_agent demo_lib | Some x \<Rightarrow> Inr x) = Inr interrupted"
    by simp
  have c': "interrupted \<lparr>input = ''dark fantasy'', chat_history = []\<rparr> = Inl (BaseException (Inr []))"
    by (simp add: interrupted_def)
  show ?thesis
    using engine_failure_gives_fallback [OF a b c] engine_failure_gives_fallback [OF a b' c'] a c c'
    by simp
qed

text \<open>
  The claim as stated fails: the invocation is interrupted from the keyboard; the
  exception is not caught, no fallback is substituted, and chat raises.
\<close>

theorem engine_failure_gives_fallback_counterexample:
  "interrupted \<lparr>input = ''dark fantasy'', chat_history = []\<rparr> = Inl (BaseException (Inr []))
   \<and> chat demo_lib ''dark fantasy'' (Some interrupted) (Some []) = (Inl (BaseException (Inr [])), [])"
  by (simp add: chat_def chat_try_def inner_try_def run_agent_def demo_defs)

subsection \<open>The bounded history\<close>

lemma keep_last20_drop: "keep_last20 h = drop (length h - 20) h"
  by (simp add: keep_last20_def)

lemma keep_last20_length: "length (keep_last20 h) \<le> 20"
  by (simp add: keep_last20_def)

lemma keep_last20_short: "length h \<le> 20 \<Longrightarrow> keep_last20 h = h"
  by (simp add: keep_last20_def)

lemma keep_last20_append: "keep_last20 (keep_last20 xs @ ys) = keep_last20 (xs @ ys)"
  by (auto simp: keep_last20_def add.commute)

lemma keep_last20_last: "h \<noteq> [] \<Longrightarrow> keep_last20 h \<noteq> [] \<and> last (keep_last20 h) = last h"
  by (auto simp: keep_last20_def)

lemma chat_try_Inr_history:
  "chat_try L u ax hist = (Inr out, h') \<Longrightarrow>
   h' = keep_last20 ((case hist of None \<Rightarrow> [] | Some xs \<Rightarrow> xs) @
          (if out = ''No response generated'' then []
           else [Turn (PStr ''human'') (PStr u), Turn (PStr ''assistant'') (PStr out)]))"
  by (auto simp: chat_try_def Let_def NOT_SURE_def
      split: sum.splits option.splits if_splits dest: inner_try_nonempty)

lemma chat_try_Inl_history:
  "chat_try L u ax hist = (Inl e, h') \<Longrightarrow> h' = (case hist of None \<Rightarrow> [] | Some xs \<Rightarrow> xs)"
  by (auto simp: chat_try_def Let_def split: sum.splits option.splits if_splits)

lemma chat_snd: "snd (chat L u ax hist) = snd (chat_try L u ax hist)"
  by (cases "chat_try L u ax hist") (auto simp: chat_def split: sum.splits option.splits)

lemma chat_history_step:
  assumes "length h \<le> 20"
  shows "snd (chat L u ax (Some h)) = keep_last20 (h @ appended L u ax (Some h))"
proof (cases "chat_try L u ax (Some h)")
  case (Pair r h')
  show ?thesis
  proof (cases r)
    case (Inl e)
    with Pair chat_try_Inl_history [of L u ax "Some h" e h'] assms
    show ?thesis by (simp add: chat_snd appended_def keep_last20_short)
  next
    case (Inr out)
    with Pair chat_try_Inr_history [of L u ax "Some h" out h']
    show ?thesis by (simp add: chat_snd appended_def)
  qed
qed

lemma session_history:
  "length h \<le> 20 \<Longrightarrow>
   session cs (Some h) = Some (keep_last20 (h @ transcript cs (Some h)))"
proof (induction cs arbitrary: h)
  case Nil
  then show ?case by (simp add: keep_last20_short)
next
  case (Cons c cs)
  obtain L u ax where c: "c = (L, u, ax)" by (cases c) auto
  let ?a = "appended L u ax (Some h)"
  let ?h1 = "snd (chat L u ax (Some h))"
  have h1: "?h1 = keep_last20 (h @ ?a)"
    using Cons.prems by (rule chat_history_step)
  then have "length ?h1 \<le> 20" by (simp add: keep_last20_length)
  then have "session cs (Some ?h1) = Some (keep_last20 (?h1 @ transcript cs (Some ?h1)))"
    by (rule Cons.IH)
  also have "keep_last20 (?h1 @ transcript cs (Some ?h1))
             = keep_last20 ((h @ ?a) @ transcript cs (Some ?h1))"
    unfolding h1 [symmetric] using h1 keep_last20_append by metis
  finally show ?case by (simp add: c)
qed

text \<open>
  C3. A call of chat whose body completes leaves at most 20 entries. From a history of at
  most 20 entries (the empty one the module starts with, in particular), after any
  sequence of calls the history has at most 20 entries and is exactly the last 20 entries
  of everything stored so far (all of them while there are no more than 20), so the
  oldest entries leave first. After 11 exchanges from the empty history (22 entries
  stored) the history is the transcript without its first two entries: the first exchange
  is gone from what the next call renders.
\<close>

theorem history_keeps_last_20:
  "(\<forall>out h'. chat_try L u ax hist = (Inr out, h') \<longrightarrow> length h' \<le> 20)
   \<and> (length h \<le> 20 \<longrightarrow>
        (\<exists>h'. session cs (Some h) = Some h' \<and> length h' \<le> 20
           \<and> h' = drop (length (h @ transcript cs (Some h)) - 20) (h @ transcript cs (Some h))))
   \<and> (length (transcript cs (Some [])) = 22 \<longrightarrow>
         session cs (Some []) = Some (drop 2 (transcript cs (Some []))))"
proof (intro conjI impI)
  show "\<forall>out h'. chat_try L u ax hist = (Inr out, h') \<longrightarrow> length h' \<le> 20"
    using chat_try_Inr_history [of L u ax hist] by (metis keep_last20_length)
next
  let ?all = "h @ transcript cs (Some h)"
  assume "length h \<le> 20"
  then have "session cs (Some h) = Some (keep_last20 ?all)"
    by (rule session_history)
  moreover have "length (keep_last20 ?all) \<le> 20"
    by (rule keep_last20_length)
  moreover have "keep_last20 ?all = drop (length ?all - 20) ?all"
    by (rule keep_last20_drop)
  ultimately show "\<exists>h'. session cs (Some h) = Some h' \<and> length h' \<le> 20
      \<and> h' = drop (length ?all - 20) ?all"
    by simp
next
  assume len: "length (transcript cs (Some [])) = 22"
  have "session cs (Some []) = Some (keep_last20 ([] @ transcript cs (Some [])))"
    by (rule session_history) simp
  with len show "session cs (Some []) = Some (drop 2 (transcript cs (Some [])))"
    by (simp add: keep_last20_drop)
qed

theorem history_keeps_last_20_witness:
  "length ([] :: entry list) \<le> 20
   \<and> length (transcript eleven_calls (Some [])) = 22
   \<and> take 2 (transcript eleven_calls (Some [])) =
       [Turn (PStr ''human'') (PStr ''q1''), Turn (PStr ''assistant'') (PStr ''Re: q1'')]
   \<and> session eleven_calls (Some []) = Some (drop 2 (transcript eleven_calls (Some [])))
   \<and> length (snd (chat_try demo_lib ''q1'' (Some echo) (Some []))) \<le> 20"
proof -
  have b: "length (transcript eleven_calls (Some [])) = 22" by code_simp
  have c: "take 2 (transcript eleven_calls (Some [])) =
       [Turn (PStr ''human'') (PStr ''q1''), Turn (PStr ''assistant'') (PStr ''Re: q1'')]"
    by code_simp
  have d: "chat_try demo_lib ''q1'' (Some echo) (Some []) =
       (Inr ''Re: q1'', [Turn (PStr ''human'') (PStr ''q1''), Turn (PStr ''assistant'') (PStr ''Re: q1'')])"
    by (simp add: chat_try_def inner_try_def run_agent_def checked_output_def dict_get_def
        keep_last20_def demo_defs Let_def)
  show ?thesis
    using history_keeps_last_20 [of demo_lib "''q1''" "Some echo" "Some []" "[]" eleven_calls] b c d
    by simp
qed

subsection \<open>Exchanges in the history\<close>

lemma alternating_even: "alternating h \<Longrightarrow> even (length h)"
  by (induction h rule: alternating.induct) auto

lemma alternating_drop: "alternating h \<Longrightarrow> alternating (drop (2 * k) h)"
proof (induction h arbitrary: k rule: alternating.induct)
  case 1
  then show ?case by simp
next
  case (2 r c r' c' rest)
  show ?case
  proof (cases k)
    case 0
    with 2 show ?thesis by simp
  next
    case (Suc j)
    with 2 show ?thesis by simp
  qed
qed auto

lemma alternating_append: "alternating xs \<Longrightarrow> alternating ys \<Longrightarrow> alternating (xs @ ys)"
  by (induction xs rule: alternating.induct) auto

lemma alternating_keep_last20: "alternating h \<Longrightarrow> alternating (keep_last20 h)"
proof -
  assume a: "alternating h"
  then have "even (length h - 20)" using alternating_even [of h] by simp
  then obtain k where "length h - 20 = 2 * k" by (blast elim: evenE)
  with a alternating_drop [of h k] show ?thesis by (simp add: keep_last20_drop)
qed

lemma chat_alternating: "alternating h \<Longrightarrow> alternating (snd (chat L u ax (Some h)))"
proof (cases "chat_try L u ax (Some h)")
  case (Pair r h')
  assume a: "alternating h"
  show ?thesis
  proof (cases r)
    case (Inl e)
    with Pair chat_try_Inl_history [of L u ax "Some h" e h'] a
    show ?thesis by (simp add: chat_snd)
  next
    case (Inr out)
    with Pair chat_try_Inr_history [of L u ax "Some h" out h'] a
    show ?thesis by (auto simp: chat_snd intro!: alternating_keep_last20 alternating_append)
  qed
qed

text \<open>
  C9, as amended. A call of chat whose body completes with an output other than
  'No response generated' stores exactly two entries, ("human", user_input) and then
  ("assistant", output), before the cut to the last 20; a call whose output is that text
  stores nothing. A history of even length that alternates human and assistant turns,
  human first, is of that form again after every call of chat, the cut included.
\<close>

theorem chat_appends_one_exchange:
  "(chat_try L u ax (Some h) = (Inr out, h') \<and> out \<noteq> ''No response generated'' \<longrightarrow>
      h' = keep_last20 (h @ [Turn (PStr ''human'') (PStr u), Turn (PStr ''assistant'') (PStr out)]))
   \<and> (chat_try L u ax (Some h) = (Inr out, h') \<and> out = ''No response generated'' \<longrightarrow>
      h' = keep_last20 h)
   \<and> (alternating h \<longrightarrow>
        alternating (snd (chat L u ax (Some h))) \<and> even (length (snd (chat L u ax (Some h)))))"
  using chat_try_Inr_history [of L u ax "Some h" out h']
    chat_alternating [of h L u ax] alternating_even [of "snd (chat L u ax (Some h))"]
  by auto

theorem chat_appends_one_exchange_witness:
  "chat_try demo_lib ''cosy mysteries'' (Some echo) (Some []) =
     (Inr ''Re: cosy mysteries'',
      [Turn (PStr ''human'') (PStr ''cosy mysteries''),
       Turn (PStr ''assistant'') (PStr ''Re: cosy mysteries'')])
   \<and> ''Re: cosy mysteries'' \<noteq> ''No response generated''
   \<and> alternating []
   \<and> alternating (snd (chat demo_lib ''cosy mysteries'' (Some echo) (Some [])))
   \<and> even (length (snd (chat demo_lib ''cosy mysteries'' (Some echo) (Some []))))"
proof -
  have a: "chat_try demo_lib ''cosy mysteries'' (Some echo) (Some []) =
     (Inr ''Re: cosy mysteries'',
      [Turn (PStr ''human'') (PStr ''cosy mysteries''),
       Turn (PStr ''assistant'') (PStr ''Re: cosy mysteries'')])"
    by (simp add: chat_try_def inner_try_def run_agent_def checked_output_def dict_get_def
        keep_last20_def demo_defs Let_def)
  show ?thesis
    using a chat_appends_one_exchange [of demo_lib "''cosy mysteries''" "Some echo" "[]"
        "''Re: cosy mysteries''"
        "[Turn (PStr ''human'') (PStr ''cosy mysteries''),
          Turn (PStr ''assistant'') (PStr ''Re: cosy mysteries'')]"]
    by simp
qed

text \<open>
  The claim as stated fails: the executor answers with the text 'No response generated',
  the body of chat completes and returns it, and the history is still empty.
\<close>

theorem chat_appends_one_exchange_counterexample:
  "chat_try demo_lib ''anything new?''
     (Some (\<lambda>d. Inr (RDict [(''output'', PStr ''No response generated'')]))) (Some []) =
   (Inr ''No response generated'', [])"
  by (simp add: chat_try_def inner_try_def run_agent_def checked_output_def dict_get_def
      keep_last20_def demo_defs Let_def)

subsection \<open>The returned text and the stored text\<close>

lemma format_history_last:
  "format_history chk (xs @ [Turn (PStr ''assistant'') (PStr s)]) = Inr ms \<Longrightarrow> s \<noteq> [] \<Longrightarrow>
   ms \<noteq> [] \<and> last ms = AIMessage s"
proof (induction xs arbitrary: ms)
  case Nil
  then show ?case by auto
next
  case (Cons x xs)
  then show ?case
    by (cases x) (auto split: if_splits option.splits sum.splits pyval.splits)
qed

text \<open>
  C10, as amended. When the body of chat completes with an output other than
  'No response generated' (the fallback and the substituted messages included), the
  string returned is the content of the assistant turn stored last in the history, and
  whenever that history is rendered for a later call, the rendering ends with this text
  as an AIMessage. When the output is 'No response generated', it is returned and
  nothing is stored.
\<close>

theorem returned_text_is_stored:
  "chat_try L u ax hist = (Inr out, h') \<Longrightarrow> out \<noteq> ''No response generated'' \<Longrightarrow>
   chat L u ax hist = (Inr out, h') \<and> h' \<noteq> []
   \<and> last h' = Turn (PStr ''assistant'') (PStr out)
   \<and> (\<forall>ms. format_history chk h' = Inr ms \<longrightarrow> ms \<noteq> [] \<and> last ms = AIMessage out)"
proof -
  assume run: "chat_try L u ax hist = (Inr out, h')" and neq: "out \<noteq> ''No response generated''"
  let ?new = "(case hist of None \<Rightarrow> [] | Some xs \<Rightarrow> xs)
                @ [Turn (PStr ''human'') (PStr u), Turn (PStr ''assistant'') (PStr out)]"
  have h': "h' = keep_last20 ?new"
    using chat_try_Inr_history [OF run] neq by simp
  have out: "out \<noteq> []" using run by (rule chat_try_nonempty)
  have l: "h' \<noteq> [] \<and> last h' = Turn (PStr ''assistant'') (PStr out)"
    using keep_last20_last [of ?new] h' by simp
  then obtain xs where xs: "h' = xs @ [Turn (PStr ''assistant'') (PStr out)]"
    by (metis append_butlast_last_id)
  have "\<forall>ms. format_history chk h' = Inr ms \<longrightarrow> ms \<noteq> [] \<and> last ms = AIMessage out"
    using format_history_last [of chk xs out] out xs by blast
  with l run show ?thesis by (simp add: chat_def)
qed

theorem returned_text_is_stored_witness:
  "chat_try demo_lib ''space opera'' (Some failing) (Some []) =
     (Inr FALLBACK,
      [Turn (PStr ''human'') (PStr ''space opera''), Turn (PStr ''assistant'') (PStr FALLBACK)])
   \<and> FALLBACK \<noteq> ''No response generated''
   \<and> chat demo_lib ''space opera'' (Some failing) (Some []) =
       (Inr FALLBACK,
        [Turn (PStr ''human'') (PStr ''space opera''), Turn (PStr ''assistant'') (PStr FALLBACK)])
   \<and> format_history str_only
        [Turn (PStr ''human'') (PStr ''space opera''), Turn (PStr ''assistant'') (PStr FALLBACK)] =
       Inr [HumanMessage (PStr ''space opera''), AIMessage FALLBACK]"
proof -
  have a: "chat_try demo_lib ''space opera'' (Some failing) (Some []) =
     (Inr FALLBACK,
      [Turn (PStr ''human'') (PStr ''space opera''), Turn (PStr ''assistant'') (PStr FALLBACK)])"
    by (simp add: chat_try_def inner_try_def run_agent_def keep_last20_def demo_defs Let_def
        FALLBACK_nonempty FALLBACK_not_marker)
  have b: "format_history str_only
        [Turn (PStr ''human'') (PStr ''space opera''), Turn (PStr ''assistant'') (PStr FALLBACK)] =
       Inr [HumanMessage (PStr ''space opera''), AIMessage FALLBACK]"
    by (simp add: str_only_def FALLBACK_nonempty)
  show ?thesis
    using returned_text_is_stored [OF a FALLBACK_not_marker, of str_only] a b FALLBACK_not_marker
    by simp
qed

text \<open>
  The claim as stated fails: the response is an object whose str() is the text
  'No response generated'; chat returns that text, and the last assistant turn of the
  history still holds the older text.
\<close>

theorem returned_text_is_stored_counterexample:
  "chat_try demo_lib ''more like this''
     (Some (\<lambda>d. Inr (RObj None (Inr ''No response generated''))))
     (Some [Turn (PStr ''human'') (PStr ''hi''), Turn (PStr ''assistant'') (PStr ''Try Dune.'')]) =
   (Inr ''No response generated'',
    [Turn (PStr ''human'') (PStr ''hi''), Turn (PStr ''assistant'') (PStr ''Try Dune.'')])"
  by (simp add: chat_try_def inner_try_def run_agent_def checked_output_def keep_last20_def
      demo_defs Let_def)

subsection \<open>Rendering the history\<close>

lemma format_history_skip1:
  "passed_over e \<Longrightarrow> format_history chk (e # ys) = format_history chk ys"
  by (cases e) (auto split: pyval.splits sum.splits if_splits)

lemma format_history_skip:
  "passed_over e \<Longrightarrow> format_history chk (xs @ e # ys) = format_history chk (xs @ ys)"
proof (induction xs)
  case Nil
  then show ?case by (simp add: format_history_skip1)
next
  case (Cons x xs)
  then show ?case
    by (cases x) (auto split: if_splits option.splits sum.splits pyval.splits)
qed

lemma format_history_exchanges:
  "exchanges h \<Longrightarrow> \<forall>s. s \<noteq> [] \<longrightarrow> chk (PStr s) = None \<Longrightarrow>
   format_history chk h = Inr (messages_of h)"
  by (induction h rule: exchanges.induct) auto

lemma alternates_Cons:
  "alternates ms \<Longrightarrow> ms = [] \<or> is_human (hd ms) \<noteq> is_human a \<Longrightarrow> alternates (a # ms)"
  by (cases ms) auto

lemma messages_of_alternates:
  "exchanges h \<Longrightarrow>
   alternates (messages_of h) \<and> (messages_of h = [] \<or> is_human (hd (messages_of h)))"
  by (induction h rule: exchanges.induct) (auto intro!: alternates_Cons)

lemma messages_of_length: "exchanges h \<Longrightarrow> length (messages_of h) = length h"
  by (induction h rule: exchanges.induct) auto

lemma format_history_truth_raises:
  "format_history chk xs = Inr ms \<Longrightarrow> py_bool c = Inl x \<Longrightarrow>
   format_history chk (xs @ Turn (PStr ''assistant'') c # ys) = Inl x"
proof (induction xs arbitrary: ms)
  case Nil
  then show ?case by simp
next
  case (Cons y xs)
  then show ?case
    by (cases y) (auto split: if_splits option.splits sum.splits pyval.splits)
qed

text \<open>
  C6, as amended. The rendering passes over, without failing and without any effect on
  the other entries, every entry that is not a tuple of length two, every turn whose role
  is neither "human" nor "assistant", and every assistant turn whose content is None, the
  empty string, or another non-string object whose truth test returns. An assistant turn
  whose content raises on its truth test is not passed over: where the entries before it
  render, the whole render fails with that exception. Passing over an assistant turn
  leaves its human partner in place, so the rendered list alternates only when the stored
  history does: for a history of exchanges with non-empty texts that the message class
  accepts, every turn is rendered, in order, and human and assistant messages alternate.
\<close>

theorem render_skips_and_keeps:
  "(passed_over e \<longrightarrow> format_history chk (xs @ e # ys) = format_history chk (xs @ ys))
   \<and> (passed_over Malformed
       \<and> (r \<noteq> PStr ''human'' \<and> r \<noteq> PStr ''assistant'' \<longrightarrow> passed_over (Turn r c))
       \<and> passed_over (Turn (PStr ''assistant'') PNone)
       \<and> passed_over (Turn (PStr ''assistant'') (PStr []))
       \<and> passed_over (Turn (PStr ''assistant'') (PObj (Inr b) s))
       \<and> \<not> passed_over (Turn (PStr ''assistant'') (PObj (Inl x) s)))
   \<and> (\<forall>ms. format_history chk xs = Inr ms \<and> py_bool c = Inl x \<longrightarrow>
         format_history chk (xs @ Turn (PStr ''assistant'') c # ys) = Inl x)
   \<and> (exchanges h \<and> (\<forall>s. s \<noteq> [] \<longrightarrow> chk (PStr s) = None) \<longrightarrow>
        format_history chk h = Inr (messages_of h)
        \<and> length (messages_of h) = length h
        \<and> alternates (messages_of h))"
  using format_history_skip [of e chk xs ys] format_history_exchanges [of h chk]
    messages_of_alternates [of h] messages_of_length [of h]
    format_history_truth_raises [of chk xs _ c x ys]
  by auto

theorem render_skips_and_keeps_witness:
  "passed_over (Turn (PStr ''assistant'') PNone)
   \<and> format_history str_only
       ([Turn (PStr ''human'') (PStr ''hi'')] @ Turn (PStr ''assistant'') PNone
          # [Turn (PStr ''assistant'') (PStr ''Try Dune.'')]) =
     format_history str_only
       ([Turn (PStr ''human'') (PStr ''hi'')] @ [Turn (PStr ''assistant'') (PStr ''Try Dune.'')])
   \<and> PStr ''system'' \<noteq> PStr ''human'' \<and> PStr ''system'' \<noteq> PStr ''assistant''
   \<and> passed_over (Turn (PStr ''system'') (PStr ''be brief''))
   \<and> format_history str_only [Turn (PStr ''human'') (PStr ''hi'')] = Inr [HumanMessage (PStr ''hi'')]
   \<and> py_bool (PObj (Inl (Exception (Inr ''ambiguous truth value''))) (Inr ''[0 1]'')) =
       Inl (Exception (Inr ''ambiguous truth value''))
   \<and> format_history str_only
       ([Turn (PStr ''human'') (PStr ''hi'')]
          @ Turn (PStr ''assistant'') (PObj (Inl (Exception (Inr ''ambiguous truth value''))) (Inr ''[0 1]''))
          # [Turn (PStr ''human'') (PStr ''more'')]) =
     Inl (Exception (Inr ''ambiguous truth value''))
   \<and> exchanges [Turn (PStr ''human'') (PStr ''hi''), Turn (PStr ''assistant'') (PStr ''Try Dune.'')]
   \<and> format_history str_only
       [Turn (PStr ''human'') (PStr ''hi''), Turn (PStr ''assistant'') (PStr ''Try Dune.'')] =
     Inr [HumanMessage (PStr ''hi''), AIMessage ''Try Dune.'']
   \<and> alternates [HumanMessage (PStr ''hi''), AIMessage ''Try Dune.'']"
proof -
  have a: "passed_over (Turn (PStr ''assistant'') PNone)" by simp
  have b: "exchanges [Turn (PStr ''human'') (PStr ''hi''), Turn (PStr ''assistant'') (PStr ''Try Dune.'')]"
    by simp
  have c: "\<forall>s. s \<noteq> [] \<longrightarrow> str_only (PStr s) = None" by (simp add: str_only_def)
  have d: "format_history str_only [Turn (PStr ''human'') (PStr ''hi'')] = Inr [HumanMessage (PStr ''hi'')]"
    by (simp add: str_only_def)
  have e: "py_bool (PObj (Inl (Exception (Inr ''ambiguous truth value''))) (Inr ''[0 1]'')) =
       Inl (Exception (Inr ''ambiguous truth value''))"
    by simp
  have n: "PStr ''system'' \<noteq> PStr ''human'' \<and> PStr ''system'' \<noteq> PStr ''assistant''" by simp
  have first: "format_history str_only
       ([Turn (PStr ''human'') (PStr ''hi'')] @ Turn (PStr ''assistant'') PNone
          # [Turn (PStr ''assistant'') (PStr ''Try Dune.'')]) =
     format_history str_only
       ([Turn (PStr ''human'') (PStr ''hi'')] @ [Turn (PStr ''assistant'') (PStr ''Try Dune.'')])
     \<and> passed_over (Turn (PStr ''system'') (PStr ''be brief''))
     \<and> format_history str_only
       [Turn (PStr ''human'') (PStr ''hi''), Turn (PStr ''assistant'') (PStr ''Try Dune.'')] =
     Inr [HumanMessage (PStr ''hi''), AIMessage ''Try Dune.'']
     \<and> alternates [HumanMessage (PStr ''hi''), AIMessage ''Try Dune.'']"
    using a b c n
      render_skips_and_keeps [where e = "Turn (PStr ''assistant'') PNone" and chk = str_only
        and xs = "[Turn (PStr ''human'') (PStr ''hi'')]"
        and ys = "[Turn (PStr ''assistant'') (PStr ''Try Dune.'')]"
        and r = "PStr ''system''" and c = "PStr ''be brief''"
        and h = "[Turn (PStr ''human'') (PStr ''hi''), Turn (PStr ''assistant'') (PStr ''Try Dune.'')]"]
    by simp
  have second: "format_history str_only
       ([Turn (PStr ''human'') (PStr ''hi'')]
          @ Turn (PStr ''assistant'') (PObj (Inl (Exception (Inr ''ambiguous truth value''))) (Inr ''[0 1]''))
          # [Turn (PStr ''human'') (PStr ''more'')]) =
     Inl (Exception (Inr ''ambiguous truth value''))"
    using d e
      render_skips_and_keeps [where chk = str_only
        and xs = "[Turn (PStr ''human'') (PStr ''hi'')]"
        and ys = "[Turn (PStr ''human'') (PStr ''more'')]"
        and c = "PObj (Inl (Exception (Inr ''ambiguous truth value''))) (Inr ''[0 1]'')"
        and x = "Exception (Inr ''ambiguous truth value'')"]
    by simp
  from a first second d e n b show ?thesis by blast
qed

text \<open>
  The claim as stated fails twice: an assistant turn with empty content is passed over
  and two human messages become neighbours, and a human turn with empty content is
  rendered, not passed over.
\<close>

theorem render_skips_and_keeps_counterexample:
  "format_history str_only
     [Turn (PStr ''human'') (PStr ''a''), Turn (PStr ''assistant'') (PStr []),
      Turn (PStr ''human'') (PStr ''b''), Turn (PStr ''assistant'') (PStr ''c'')] =
   Inr [HumanMessage (PStr ''a''), HumanMessage (PStr ''b''), AIMessage ''c'']
   \<and> \<not> alternates [HumanMessage (PStr ''a''), HumanMessage (PStr ''b''), AIMessage ''c'']
   \<and> format_history str_only [Turn (PStr ''human'') (PStr [])] = Inr [HumanMessage (PStr [])]"
  by (simp add: str_only_def)

section \<open>Properties of the lookup tools\<close>

lemma format_numbered_failure:
  "(format_numbered i rs acc = Inl e) = (first_failure rs = Some e)"
proof (induction rs arbitrary: i acc)
  case Nil
  then show ?case by simp
next
  case (Cons r rs)
  then show ?case by (cases r) (auto simp: Let_def split: sum.splits)
qed

lemma format_plain_failure:
  "(format_plain rs acc = Inl e) = (first_failure rs = Some e)"
proof (induction rs arbitrary: acc)
  case Nil
  then show ?case by simp
next
  case (Cons r rs)
  then show ?case by (cases r) (auto simp: Let_def split: sum.splits)
qed

lemma handledI:
  assumes r: "result = (case body of Inl e \<Rightarrow> except_Exception prefix e | Inr s \<Rightarrow> Inr s)"
    and f: "\<And>e. (body = Inl e) = (failure = Some e)"
  shows "handled failure prefix result"
proof (cases body)
  case (Inl e)
  then have "failure = Some e" using f by simp
  with Inl r show ?thesis by (auto simp: except_Exception_def)
next
  case (Inr s)
  then have "failure = None" using f by (cases failure) auto
  with Inr r show ?thesis by simp
qed

lemma genre_failure:
  "(fst (search_books_by_genre_try T genre) = Inl e) =
   (body_failure T 5 (''best '' @ genre @ '' books 2024 2023 highly rated recommendations'') = Some e)"
  by (auto simp: search_books_by_genre_try_def body_failure_def Let_def format_numbered_failure
      split: sum.splits results.splits)

lemma similar_failure:
  "(fst (search_similar_books_try T title) = Inl e) =
   (body_failure T 5 (''books similar to '' @ title @ '' recommendations if you liked'') = Some e)"
  by (auto simp: search_similar_books_try_def body_failure_def Let_def format_numbered_failure
      split: sum.splits results.splits)

lemma mood_failure:
  "(fst (search_books_by_mood_try T mood) = Inl e) =
   (body_failure T 5 (mood @ '' books recommendations best rated'') = Some e)"
  by (auto simp: search_books_by_mood_try_def body_failure_def Let_def format_numbered_failure
      split: sum.splits results.splits)

lemma details_failure:
  "(fst (get_book_details_try T title author) = Inl e) =
   (body_failure T 3 (title @ (if author \<noteq> [] then '' by '' @ author else [])
        @ '' book synopsis author information reading time pages'') = Some e)"
  by (auto simp: get_book_details_try_def body_failure_def Let_def format_plain_failure
      split: sum.splits results.splits)

lemma buy_failure:
  "(fst (search_where_to_buy_try T title) = Inl e) =
   (body_failure T 4 (''where to buy '' @ title @ '' book Amazon Goodreads library online'') = Some e)"
  by (auto simp: search_where_to_buy_try_def body_failure_def Let_def format_numbered_failure
      split: sum.splits results.splits)

lemma genre_result:
  "fst (search_books_by_genre T genre) =
     (case fst (search_books_by_genre_try T genre) of
        Inl e \<Rightarrow> except_Exception ''Error searching books by genre: '' e | Inr s \<Rightarrow> Inr s)"
  by (cases "search_books_by_genre_try T genre")
     (auto simp: search_books_by_genre_def split: sum.splits)

lemma similar_result:
  "fst (search_similar_books T title) =
     (case fst (search_similar_books_try T title) of
        Inl e \<Rightarrow> except_Exception ''Error searching similar books: '' e | Inr s \<Rightarrow> Inr s)"
  by (cases "search_similar_books_try T title")
     (auto simp: search_similar_books_def split: sum.splits)

lemma mood_result:
  "fst (search_books_by_mood T mood) =
     (case fst (search_books_by_mood_try T mood) of
        Inl e \<Rightarrow> except_Exception ''Error searching books by mood: '' e | Inr s \<Rightarrow> Inr s)"
  by (cases "search_books_by_mood_try T mood")
     (auto simp: search_books_by_mood_def split: sum.splits)

lemma details_result:
  "fst (get_book_details T title author) =
     (case fst (get_book_details_try T title author) of
        Inl e \<Rightarrow> except_Exception ''Error getting book details: '' e | Inr s \<Rightarrow> Inr s)"
  by (cases "get_book_details_try T title author")
     (auto simp: get_book_details_def split: sum.splits)

lemma buy_result:
  "fst (search_where_to_buy T title) =
     (case fst (search_where_to_buy_try T title) of
        Inl e \<Rightarrow> except_Exception ''Error searching purchase options: '' e | Inr s \<Rightarrow> Inr s)"
  by (cases "search_where_to_buy_try T title")
     (auto simp: search_where_to_buy_def split: sum.splits)

lemma genre_handled:
  "handled (body_failure T 5 (''best '' @ genre @ '' books 2024 2023 highly rated recommendations''))
     ''Error searching books by genre: '' (fst (search_books_by_genre T genre))"
  by (rule handledI [OF genre_result genre_failure])

lemma similar_handled:
  "handled (body_failure T 5 (''books similar to '' @ title @ '' recommendations if you liked''))
     ''Error searching similar books: '' (fst (search_similar_books T title))"
  by (rule handledI [OF similar_result similar_failure])

lemma mood_handled:
  "handled (body_failure T 5 (mood @ '' books recommendations best rated''))
     ''Error searching books by mood: '' (fst (search_books_by_mood T mood))"
  by (rule handledI [OF mood_result mood_failure])

lemma details_handled:
  "handled (body_failure T 3 (title @ (if author \<noteq> [] then '' by '' @ author else [])
        @ '' book synopsis author information reading time pages''))
     ''Error getting book details: '' (fst (get_book_details T title author))"
  by (rule handledI [OF details_result details_failure])

lemma buy_handled:
  "handled (body_failure T 4 (''where to buy '' @ title @ '' book Amazon Goodreads library online''))
     ''Error searching purchase options: '' (fst (search_where_to_buy T title))"
  by (rule handledI [OF buy_result buy_failure])

lemma guarded_genre:
  "guarded (check g) (invoke_search_books_by_genre check T g) (search_books_by_genre T)"
  by (simp add: invoke_search_books_by_genre_def)

lemma guarded_similar:
  "guarded (check g) (invoke_search_similar_books check T g) (search_similar_books T)"
  by (simp add: invoke_search_similar_books_def)

lemma guarded_mood:
  "guarded (check g) (invoke_search_books_by_mood check T g) (search_books_by_mood T)"
  by (simp add: invoke_search_books_by_mood_def)

lemma guarded_details:
  "guarded (check2 g a) (invoke_get_book_details check2 T g a)
     (\<lambda>(title, author). get_book_details T title author)"
  by (simp add: invoke_get_book_details_def)

lemma guarded_buy:
  "guarded (check g) (invoke_search_where_to_buy check T g) (search_where_to_buy T)"
  by (simp add: invoke_search_where_to_buy_def)

lemma genre_empty:
  "T 5 = Inr t \<Longrightarrow>
   t (''best '' @ genre @ '' books 2024 2023 highly rated recommendations'') = Inr (ResList []) \<Longrightarrow>
   fst (search_books_by_genre T genre) = Inr (''Top books in '' @ genre @ '':\<newline>\<newline>'')"
  by (simp add: search_books_by_genre_def search_books_by_genre_try_def)

lemma similar_empty:
  "T 5 = Inr t \<Longrightarrow>
   t (''books similar to '' @ title @ '' recommendations if you liked'') = Inr (ResList []) \<Longrightarrow>
   fst (search_similar_books T title) =
     Inr (''Books similar to '' @ [CHR 0x27] @ title @ [CHR 0x27] @ '':\<newline>\<newline>'')"
  by (simp add: search_similar_books_def search_similar_books_try_def)

lemma mood_empty:
  "T 5 = Inr t \<Longrightarrow>
   t (mood @ '' books recommendations best rated'') = Inr (ResList []) \<Longrightarrow>
   fst (search_books_by_mood T mood) = Inr (''Books for '' @ mood @ '' mood:\<newline>\<newline>'')"
  by (simp add: search_books_by_mood_def search_books_by_mood_try_def)

lemma details_empty:
  "T 3 = Inr t \<Longrightarrow>
   t (title @ (if author \<noteq> [] then '' by '' @ author else [])
        @ '' book synopsis author information reading time pages'') = Inr (ResList []) \<Longrightarrow>
   fst (get_book_details T title author) =
     Inr (''Details for '' @ [CHR 0x27] @ title @ [CHR 0x27] @ '':\<newline>\<newline>'')"
  by (auto simp: get_book_details_def get_book_details_try_def split: if_splits)

lemma buy_empty:
  "T 4 = Inr t \<Longrightarrow>
   t (''where to buy '' @ title @ '' book Amazon Goodreads library online'') = Inr (ResList []) \<Longrightarrow>
   fst (search_where_to_buy T title) =
     Inr (''Where to get '' @ [CHR 0x27] @ title @ [CHR 0x27] @ '':\<newline>\<newline>'')"
  by (simp add: search_where_to_buy_def search_where_to_buy_try_def)

text \<open>
  C2, as amended. In each of the five lookup operations, once the tool wrapper has
  accepted the arguments, the first exception raised in the body (by the construction of
  the search tool, by its invocation, or while a result is read and formatted), when it
  is an instance of Exception, is caught and returned as the text
  "Error <doing X>: <str(e)>". The operation raises to its caller in three cases only:
  the wrapper's validation of the arguments fails (it runs before the try), the exception
  of the body is not an instance of Exception (KeyboardInterrupt, SystemExit), or str(e)
  raises inside the handler. An empty result list raises nothing and is not reported as
  a failure: the operation returns its header line alone.
\<close>

theorem lookup_exceptions_become_error_text:
  "(handled (body_failure T 5 (''best '' @ genre @ '' books 2024 2023 highly rated recommendations''))
      ''Error searching books by genre: '' (fst (search_books_by_genre T genre))
    \<and> handled (body_failure T 5 (''books similar to '' @ title @ '' recommendations if you liked''))
      ''Error searching similar books: '' (fst (search_similar_books T title))
    \<and> handled (body_failure T 5 (mood @ '' books recommendations best rated''))
      ''Error searching books by mood: '' (fst (search_books_by_mood T mood))
    \<and> handled (body_failure T 3 (title @ (if author \<noteq> [] then '' by '' @ author else [])
         @ '' book synopsis author information reading time pages''))
      ''Error getting book details: '' (fst (get_book_details T title author))
    \<and> handled (body_failure T 4 (''where to buy '' @ title @ '' book Amazon Goodreads library online''))
      ''Error searching purchase options: '' (fst (search_where_to_buy T title)))
   \<and> (guarded (check genre_arg) (invoke_search_books_by_genre check T genre_arg)
        (search_books_by_genre T)
    \<and> guarded (check title_arg) (invoke_search_similar_books check T title_arg)
        (search_similar_books T)
    \<and> guarded (check mood_arg) (invoke_search_books_by_mood check T mood_arg)
        (search_books_by_mood T)
    \<and> guarded (check_details title_arg author_arg) (invoke_get_book_details check_details T title_arg author_arg)
        (\<lambda>(t, a). get_book_details T t a)
    \<and> guarded (check title_arg) (invoke_search_where_to_buy check T title_arg)
        (search_where_to_buy T))
   \<and> ((\<forall>t. T 5 = Inr t
           \<and> t (''best '' @ genre @ '' books 2024 2023 highly rated recommendations'') = Inr (ResList []) \<longrightarrow>
          fst (search_books_by_genre T genre) = Inr (''Top books in '' @ genre @ '':\<newline>\<newline>''))
    \<and> (\<forall>t. T 5 = Inr t
           \<and> t (''books similar to '' @ title @ '' recommendations if you liked'') = Inr (ResList []) \<longrightarrow>
          fst (search_similar_books T title) =
            Inr (''Books similar to '' @ [CHR 0x27] @ title @ [CHR 0x27] @ '':\<newline>\<newline>''))
    \<and> (\<forall>t. T 5 = Inr t \<and> t (mood @ '' books recommendations best rated'') = Inr (ResList []) \<longrightarrow>
          fst (search_books_by_mood T mood) = Inr (''Books for '' @ mood @ '' mood:\<newline>\<newline>''))
    \<and> (\<forall>t. T 3 = Inr t
           \<and> t (title @ (if author \<noteq> [] then '' by '' @ author else [])
                  @ '' book synopsis author information reading time pages'') = Inr (ResList []) \<longrightarrow>
          fst (get_book_details T title author) =
            Inr (''Details for '' @ [CHR 0x27] @ title @ [CHR 0x27] @ '':\<newline>\<newline>''))
    \<and> (\<forall>t. T 4 = Inr t
           \<and> t (''where to buy '' @ title @ '' book Amazon Goodreads library online'') = Inr (ResList []) \<longrightarrow>
          fst (search_where_to_buy T title) =
            Inr (''Where to get '' @ [CHR 0x27] @ title @ [CHR 0x27] @ '':\<newline>\<newline>'')))"
proof -
  note A = conjI [OF genre_handled [of T genre] conjI [OF similar_handled [of T title]
      conjI [OF mood_handled [of T mood] conjI [OF details_handled [of T title author]
      buy_handled [of T title]]]]]
  note B = conjI [OF guarded_genre [of check genre_arg T] conjI [OF guarded_similar [of check title_arg T]
      conjI [OF guarded_mood [of check mood_arg T]
      conjI [OF guarded_details [of check_details title_arg author_arg T]
      guarded_buy [of check title_arg T]]]]]
  have C: "(\<forall>t. T 5 = Inr t
           \<and> t (''best '' @ genre @ '' books 2024 2023 highly rated recommendations'') = Inr (ResList []) \<longrightarrow>
          fst (search_books_by_genre T genre) = Inr (''Top books in '' @ genre @ '':\<newline>\<newline>''))
    \<and> (\<forall>t. T 5 = Inr t
           \<and> t (''books similar to '' @ title @ '' recommendations if you liked'') = Inr (ResList []) \<longrightarrow>
          fst (search_similar_books T title) =
            Inr (''Books similar to '' @ [CHR 0x27] @ title @ [CHR 0x27] @ '':\<newline>\<newline>''))
    \<and> (\<forall>t. T 5 = Inr t \<and> t (mood @ '' books recommendations best rated'') = Inr (ResList []) \<longrightarrow>
          fst (search_books_by_mood T mood) = Inr (''Books for '' @ mood @ '' mood:\<newline>\<newline>''))
    \<and> (\<forall>t. T 3 = Inr t
           \<and> t (title @ (if author \<noteq> [] then '' by '' @ author else [])
                  @ '' book synopsis author information reading time pages'') = Inr (ResList []) \<longrightarrow>
          fst (get_book_details T title author) =
            Inr (''Details for '' @ [CHR 0x27] @ title @ [CHR 0x27] @ '':\<newline>\<newline>''))
    \<and> (\<forall>t. T 4 = Inr t
           \<and> t (''where to buy '' @ title @ '' book Amazon Goodreads library online'') = Inr (ResList []) \<longrightarrow>
          fst (search_where_to_buy T title) =
            Inr (''Where to get '' @ [CHR 0x27] @ title @ [CHR 0x27] @ '':\<newline>\<newline>''))"
    using genre_empty [of T _ genre] similar_empty [of T _ title] mood_empty [of T _ mood]
      details_empty [of T _ title author] buy_empty [of T _ title]
    by blast
  show ?thesis by (rule conjI [OF A conjI [OF B C]])
qed

theorem lookup_exceptions_become_error_text_witness:
  "(body_failure no_key_search 5 ''best noir books 2024 2023 highly rated recommendations'' =
      Some (Exception (Inr ''Did not find tavily_api_key''))
    \<and> fst (search_books_by_genre no_key_search ''noir'') =
      Inr ''Error searching books by genre: Did not find tavily_api_key'')
   \<and> (body_failure timeout_search 5 ''books similar to Dune recommendations if you liked'' =
      Some (Exception (Inr ''timed out''))
    \<and> fst (search_similar_books timeout_search ''Dune'') =
      Inr ''Error searching similar books: timed out'')
   \<and> (body_failure odd_item_search 5 ''dark books recommendations best rated'' =
      Some (Exception (Inr ''no attribute get''))
    \<and> fst (search_books_by_mood odd_item_search ''dark'') =
      Inr ''Error searching books by mood: no attribute get'')
   \<and> (body_failure unprintable_search 3
        ''Dune by Herbert book synopsis author information reading time pages'' =
      Some (Exception (Inr ''cannot format''))
    \<and> fst (get_book_details unprintable_search ''Dune'' ''Herbert'') =
      Inr ''Error getting book details: cannot format'')
   \<and> (body_failure interrupted_search 4 ''where to buy Dune book Amazon Goodreads library online'' =
      Some (BaseException (Inr []))
    \<and> fst (search_where_to_buy interrupted_search ''Dune'') = Inl (BaseException (Inr [])))
   \<and> (body_failure (\<lambda>n. Inl (Exception (Inl (Exception (Inr ''bad str''))))) 5
        ''best noir books 2024 2023 highly rated recommendations'' =
      Some (Exception (Inl (Exception (Inr ''bad str''))))
    \<and> fst (search_books_by_genre (\<lambda>n. Inl (Exception (Inl (Exception (Inr ''bad str''))))) ''noir'') =
      Inl (Exception (Inr ''bad str'')))
   \<and> fst (search_books_by_genre empty_search ''noir'') = Inr ''Top books in noir:\<newline>\<newline>''
   \<and> (valid_details (PStr ''Dune'') (Some PNone) = Inl (Exception (Inr ''Input should be a valid string''))
    \<and> invoke_get_book_details valid_details empty_search (PStr ''Dune'') (Some PNone) =
      (Inl (Exception (Inr ''Input should be a valid string'')), []))
   \<and> (valid_str (PStr ''noir'') = Inr ''noir''
    \<and> invoke_search_books_by_genre valid_str empty_search (PStr ''noir'') =
      search_books_by_genre empty_search ''noir'')"
proof -
  have f1: "body_failure no_key_search 5 ''best noir books 2024 2023 highly rated recommendations'' =
      Some (Exception (Inr ''Did not find tavily_api_key''))"
    by (simp add: body_failure_def no_key_search_def)
  have r1: "fst (search_books_by_genre no_key_search ''noir'') =
      Inr ''Error searching books by genre: Did not find tavily_api_key''"
    using f1 lookup_exceptions_become_error_text [where T = no_key_search and genre = "''noir''"]
    by simp
  have f2: "body_failure timeout_search 5 ''books similar to Dune recommendations if you liked'' =
      Some (Exception (Inr ''timed out''))"
    by (simp add: body_failure_def timeout_search_def)
  have r2: "fst (search_similar_books timeout_search ''Dune'') =
      Inr ''Error searching similar books: timed out''"
    using f2 lookup_exceptions_become_error_text [where T = timeout_search and title = "''Dune''"]
    by simp
  have f3: "body_failure odd_item_search 5 ''dark books recommendations best rated'' =
      Some (Exception (Inr ''no attribute get''))"
    by (simp add: body_failure_def odd_item_search_def dict_get_def)
  have r3: "fst (search_books_by_mood odd_item_search ''dark'') =
      Inr ''Error searching books by mood: no attribute get''"
    using f3 lookup_exceptions_become_error_text [where T = odd_item_search and mood = "''dark''"]
    by simp
  have f4: "body_failure unprintable_search 3
        ''Dune by Herbert book synopsis author information reading time pages'' =
      Some (Exception (Inr ''cannot format''))"
    by (simp add: body_failure_def unprintable_search_def dict_get_def)
  have r4: "fst (get_book_details unprintable_search ''Dune'' ''Herbert'') =
      Inr ''Error getting book details: cannot format''"
    using f4 lookup_exceptions_become_error_text
      [where T = unprintable_search and title = "''Dune''" and author = "''Herbert''"]
    by simp
  have f5: "body_failure interrupted_search 4 ''where to buy Dune book Amazon Goodreads library online'' =
      Some (BaseException (Inr []))"
    by (simp add: body_failure_def interrupted_search_def)
  have r5: "fst (search_where_to_buy interrupted_search ''Dune'') = Inl (BaseException (Inr []))"
    using f5 lookup_exceptions_become_error_text [where T = interrupted_search and title = "''Dune''"]
    by simp
  have f6: "body_failure (\<lambda>n. Inl (Exception (Inl (Exception (Inr ''bad str''))))) 5
        ''best noir books 2024 2023 highly rated recommendations'' =
      Some (Exception (Inl (Exception (Inr ''bad str''))))"
    by (simp add: body_failure_def)
  have r6: "fst (search_books_by_genre (\<lambda>n. Inl (Exception (Inl (Exception (Inr ''bad str''))))) ''noir'') =
      Inl (Exception (Inr ''bad str''))"
    using f6 lookup_exceptions_become_error_text
      [where T = "\<lambda>n. Inl (Exception (Inl (Exception (Inr ''bad str''))))" and genre = "''noir''"]
    by simp
  have r7: "fst (search_books_by_genre empty_search ''noir'') = Inr ''Top books in noir:\<newline>\<newline>''"
    using lookup_exceptions_become_error_text [where T = empty_search and genre = "''noir''"]
    by (simp add: empty_search_def)
  have f8: "valid_details (PStr ''Dune'') (Some PNone) = Inl (Exception (Inr ''Input should be a valid string''))"
    by (simp add: valid_details_def)
  have r8: "invoke_get_book_details valid_details empty_search (PStr ''Dune'') (Some PNone) =
      (Inl (Exception (Inr ''Input should be a valid string'')), [])"
    using f8 lookup_exceptions_become_error_text
      [where check_details = valid_details and T = empty_search and title_arg = "PStr ''Dune''"
        and author_arg = "Some PNone"]
    by simp
  have f9: "valid_str (PStr ''noir'') = Inr ''noir''"
    by (simp add: valid_str_def)
  have r9: "invoke_search_books_by_genre valid_str empty_search (PStr ''noir'') =
      search_books_by_genre empty_search ''noir''"
    using f9 lookup_exceptions_become_error_text
      [where check = valid_str and T = empty_search and genre_arg = "PStr ''noir''"]
    by simp
  from f1 r1 f2 r2 f3 r3 f4 r4 f5 r5 f6 r6 r7 f8 r8 f9 r9 show ?thesis by blast
qed

text \<open>
  The claim as stated fails on an empty result set: the search returns the empty list,
  nothing raises, and the operation returns its header line, which does not begin with
  "Error".
\<close>

theorem lookup_exceptions_become_error_text_counterexample:
  "fst (search_books_by_genre empty_search ''noir'') = Inr ''Top books in noir:\<newline>\<newline>''
   \<and> take 5 ''Top books in noir:\<newline>\<newline>'' \<noteq> ''Error''"
  by (simp add: search_books_by_genre_def search_books_by_genre_try_def empty_search_def)

lemma genre_query:
  "T 5 = Inr t \<Longrightarrow> snd (search_books_by_genre T genre) =
     [''best '' @ genre @ '' books 2024 2023 highly rated recommendations'']"
  by (auto simp: search_books_by_genre_def search_books_by_genre_try_def Let_def
      split: sum.splits results.splits prod.splits)

lemma similar_query:
  "T 5 = Inr t \<Longrightarrow> snd (search_similar_books T title) =
     [''books similar to '' @ title @ '' recommendations if you liked'']"
  by (auto simp: search_similar_books_def search_similar_books_try_def Let_def
      split: sum.splits results.splits prod.splits)

lemma mood_query:
  "T 5 = Inr t \<Longrightarrow> snd (search_books_by_mood T mood) =
     [mood @ '' books recommendations best rated'']"
  by (auto simp: search_books_by_mood_def search_books_by_mood_try_def Let_def
      split: sum.splits results.splits prod.splits)

lemma details_query:
  "T 3 = Inr t \<Longrightarrow> snd (get_book_details T title author) =
     [if author \<noteq> []
      then title @ '' by '' @ author @ '' book synopsis author information reading time pages''
      else title @ '' book synopsis author information reading time pages'']"
  by (auto simp: get_book_details_def get_book_details_try_def Let_def
      split: sum.splits results.splits prod.splits)

lemma buy_query:
  "T 4 = Inr t \<Longrightarrow> snd (search_where_to_buy T title) =
     [''where to buy '' @ title @ '' book Amazon Goodreads library online'']"
  by (auto simp: search_where_to_buy_def search_where_to_buy_try_def Let_def
      split: sum.splits results.splits prod.splits)

text \<open>
  C7. Whenever the search tool could be constructed, each lookup operation sends exactly
  one query to it, and the query is the one of the table: for every genre,
  "best {genre} books 2024 2023 highly rated recommendations"; for every title and
  author, "{book_title} by {author} book synopsis author information reading time pages"
  when the author is non-empty and "{book_title} book synopsis author information reading
  time pages" when it is empty; and likewise for the three other operations.
\<close>

theorem lookup_queries:
  "(\<forall>t. T 5 = Inr t \<longrightarrow>
      snd (search_books_by_genre T genre) =
        [''best '' @ genre @ '' books 2024 2023 highly rated recommendations'']
      \<and> snd (search_similar_books T title) =
        [''books similar to '' @ title @ '' recommendations if you liked'']
      \<and> snd (search_books_by_mood T mood) = [mood @ '' books recommendations best rated''])
   \<and> (\<forall>t. T 3 = Inr t \<and> author \<noteq> [] \<longrightarrow>
        snd (get_book_details T title author) =
          [title @ '' by '' @ author @ '' book synopsis author information reading time pages''])
   \<and> (\<forall>t. T 3 = Inr t \<longrightarrow>
        snd (get_book_details T title []) =
          [title @ '' book synopsis author information reading time pages''])
   \<and> (\<forall>t. T 4 = Inr t \<longrightarrow>
        snd (search_where_to_buy T title) =
          [''where to buy '' @ title @ '' book Amazon Goodreads library online''])"
  using genre_query [of T _ genre] similar_query [of T _ title] mood_query [of T _ mood]
    details_query [of T _ title author] details_query [of T _ title "[]"] buy_query [of T _ title]
  by auto

theorem lookup_queries_witness:
  "(\<exists>t. empty_search 5 = Inr t) \<and> (\<exists>t. empty_search 3 = Inr t) \<and> (\<exists>t. empty_search 4 = Inr t)
   \<and> ''Herbert'' \<noteq> []
   \<and> snd (search_books_by_genre empty_search ''noir'') =
       [''best noir books 2024 2023 highly rated recommendations'']
   \<and> snd (search_similar_books empty_search ''Dune'') =
       [''books similar to Dune recommendations if you liked'']
   \<and> snd (search_books_by_mood empty_search ''dark'') = [''dark books recommendations best rated'']
   \<and> snd (get_book_details empty_search ''Dune'' ''Herbert'') =
       [''Dune by Herbert book synopsis author information reading time pages'']
   \<and> snd (get_book_details empty_search ''Dune'' []) =
       [''Dune book synopsis author information reading time pages'']
   \<and> snd (search_where_to_buy empty_search ''Dune'') =
       [''where to buy Dune book Amazon Goodreads library online'']"
  using lookup_queries [of empty_search "''noir''" "''Dune''" "''dark''" "''Herbert''"]
  by (simp add: empty_search_def)

section \<open>Properties of the entry point\<close>



end
